theory Spec2Isabelle
  imports Main
begin

section \<open>JavaScript values and strings\<close>

text \<open>
  The request body of \<^verbatim>\<open>POST /students\<close> is the object that \<^verbatim>\<open>express.json()\<close> parsed.
  A property of it is absent (\<^verbatim>\<open>undefined\<close>, modelled by \<open>None\<close>) or holds a JSON value.
  The scalar JSON values are modelled: \<^verbatim>\<open>null\<close>, the booleans, numbers (\<open>JNum n\<close> stands for
  an integer-valued number of magnitude below \<open>2 ^ 53\<close>) and strings. Arrays and objects as
  field values are outside the model.

  A string is a list of code units. The type \<open>char\<close> has 256 values, so the model covers
  the code units \<open>0 .. 255\<close> (Basic Latin and Latin-1 Supplement), where white space and
  letter case are as ECMAScript defines them.
\<close>

datatype jsval = JNull | JBool bool | JNum int | JStr string

type_synonym body = "string \<rightharpoonup> jsval"

text \<open>The operator \<^verbatim>\<open>!\<close> on a value that may be \<^verbatim>\<open>undefined\<close>.\<close>

fun js_not :: "jsval option \<Rightarrow> bool" where
  "js_not None = True"
| "js_not (Some JNull) = True"
| "js_not (Some (JBool b)) = (\<not> b)"
| "js_not (Some (JNum n)) = (n = 0)"
| "js_not (Some (JStr s)) = (s = [])"

text \<open>
  \<^verbatim>\<open>String.prototype.trim\<close> removes leading and trailing white space and line terminators:
  TAB, LF, VT, FF, CR, SPACE and NO-BREAK SPACE in the modelled range.
\<close>

definition isWhiteSpace :: "char \<Rightarrow> bool" where
  "isWhiteSpace c = (of_char c \<in> {9, 10, 11, 12, 13, 32, 160 :: nat})"

definition js_trim :: "string \<Rightarrow> string" where
  "js_trim s = rev (dropWhile isWhiteSpace (rev (dropWhile isWhiteSpace s)))"

text \<open>
  \<^verbatim>\<open>String.prototype.toLowerCase\<close>: \<^verbatim>\<open>A-Z\<close> and the Latin-1 capitals \<open>0xC0 .. 0xDE\<close>
  (the multiplication sign \<open>0xD7\<close> apart) move up by 32; every other code unit of the
  range stays.
\<close>

definition toLowerCase_unit :: "char \<Rightarrow> char" where
  "toLowerCase_unit c =
     (let n = (of_char c :: nat)
      in if (65 \<le> n \<and> n \<le> 90) \<or> (192 \<le> n \<and> n \<le> 222 \<and> n \<noteq> 215)
         then char_of (n + 32) else c)"

definition js_toLowerCase :: "string \<Rightarrow> string" where
  "js_toLowerCase s = map toLowerCase_unit s"

text \<open>\<^verbatim>\<open>Number.prototype.toString\<close> on an integer: its decimal digits, with a sign.\<close>

fun digits :: "nat \<Rightarrow> string" where
  "digits n =
     (if n < 10 then [char_of (48 + n)]
      else digits (n div 10) @ [char_of (48 + n mod 10)])"

declare digits.simps [simp del]

definition Number_toString :: "int \<Rightarrow> string" where
  "Number_toString n = (if n < 0 then CHR ''-'' # digits (nat (- n)) else digits (nat n))"

section \<open>The Student schema\<close>

text \<open>
  Mongoose casts a value given for a \<^verbatim>\<open>String\<close> path with \<^verbatim>\<open>toString()\<close>;
  \<^verbatim>\<open>null\<close> and \<^verbatim>\<open>undefined\<close> stay as they are (\<open>None\<close>).
\<close>

fun castString :: "jsval option \<Rightarrow> string option" where
  "castString None = None"
| "castString (Some JNull) = None"
| "castString (Some (JBool b)) = Some (if b then ''true'' else ''false'')"
| "castString (Some (JNum n)) = Some (Number_toString n)"
| "castString (Some (JStr s)) = Some s"

text \<open>The options a path of \<^verbatim>\<open>studentSchema\<close> is declared with (lines 29 to 55).\<close>

record path_options =
  required :: bool
  unique :: bool
  trim :: bool
  lowercase :: bool

definition name_path :: path_options where
  "name_path = \<lparr>required = True, unique = False, trim = True, lowercase = False\<rparr>"

definition rollNumber_path :: path_options where
  "rollNumber_path = \<lparr>required = True, unique = True, trim = True, lowercase = False\<rparr>"

definition email_path :: path_options where
  "email_path = \<lparr>required = True, unique = False, trim = True, lowercase = True\<rparr>"

definition phone_path :: path_options where
  "phone_path = \<lparr>required = True, unique = False, trim = True, lowercase = False\<rparr>"

definition event_path :: path_options where
  "event_path = \<lparr>required = True, unique = False, trim = False, lowercase = False\<rparr>"

text \<open>
  The setters of a path run on the cast value in the order of declaration: \<^verbatim>\<open>trim\<close>, then
  \<^verbatim>\<open>lowercase\<close>. They run when a document is built and when a query condition is cast.
\<close>

definition applySetters :: "path_options \<Rightarrow> jsval option \<Rightarrow> string option" where
  "applySetters p v =
     map_option (\<lambda>s. if lowercase p then js_toLowerCase s else s)
       (map_option (\<lambda>s. if trim p then js_trim s else s) (castString v))"

text \<open>The \<^verbatim>\<open>required\<close> validator of a \<^verbatim>\<open>String\<close> path accepts a string of positive length.\<close>

definition checkRequired :: "path_options \<Rightarrow> string option \<Rightarrow> bool" where
  "checkRequired p v =
     (if required p then (case v of None \<Rightarrow> False | Some s \<Rightarrow> s \<noteq> []) else True)"

text \<open>
  A stored Student document. \<open>oid\<close> is the field \<^verbatim>\<open>_id\<close>: an ObjectId, written as its 24
  lower-case hexadecimal digits. The timestamps are milliseconds since the epoch.
\<close>

record student =
  oid :: string
  name :: string
  rollNumber :: string
  email :: string
  phone :: string
  event :: string
  createdAt :: int
  updatedAt :: int

text \<open>
  \<^verbatim>\<open>new Student({name, rollNumber, email, phone, event})\<close>: the document before it is
  saved, each path holding the value its setters returned. The \<^verbatim>\<open>_id\<close> is generated when
  the document is built; the model takes it from the environment.
\<close>

record new_document =
  new_oid :: string
  new_name :: "string option"
  new_rollNumber :: "string option"
  new_email :: "string option"
  new_phone :: "string option"
  new_event :: "string option"

definition new_Student ::
  "string \<Rightarrow> jsval option \<Rightarrow> jsval option \<Rightarrow> jsval option \<Rightarrow> jsval option \<Rightarrow> jsval option
     \<Rightarrow> new_document" where
  "new_Student i n r e p ev =
     \<lparr>new_oid = i,
      new_name = applySetters name_path n,
      new_rollNumber = applySetters rollNumber_path r,
      new_email = applySetters email_path e,
      new_phone = applySetters phone_path p,
      new_event = applySetters event_path ev\<rparr>"

definition validate :: "new_document \<Rightarrow> bool" where
  "validate d =
     (checkRequired name_path (new_name d) \<and>
      checkRequired rollNumber_path (new_rollNumber d) \<and>
      checkRequired email_path (new_email d) \<and>
      checkRequired phone_path (new_phone d) \<and>
      checkRequired event_path (new_event d))"

section \<open>The record store\<close>

text \<open>
  The collection in insertion order, and whether the connection reaches it. A call on a
  store that is not reachable fails. The unique index that \<^verbatim>\<open>unique: true\<close> declares on
  \<^verbatim>\<open>rollNumber\<close>, and the one every collection has on \<^verbatim>\<open>_id\<close>, reject an insert
  that repeats a key.
\<close>

record store =
  docs :: "student list"
  reachable :: bool

datatype store_error = StoreUnavailable | ValidationError | DuplicateKey | CastError

text \<open>
  \<^verbatim>\<open>Student.find().sort({ createdAt: -1 })\<close>. The order of documents with equal
  \<^verbatim>\<open>createdAt\<close> is not fixed by the store; the model keeps them in insertion order.
\<close>

definition find_sort_createdAt_desc :: "store \<Rightarrow> store_error + student list" where
  "find_sort_createdAt_desc s =
     (if reachable s then Inr (sort_key (\<lambda>d. - createdAt d) (docs s))
      else Inl StoreUnavailable)"

text \<open>\<^verbatim>\<open>Student.findOne({ rollNumber })\<close>: the condition is cast with the path's setters.\<close>

definition findOne_rollNumber :: "store \<Rightarrow> jsval option \<Rightarrow> store_error + student option" where
  "findOne_rollNumber s r =
     (if reachable s
      then (case applySetters rollNumber_path r of
              None \<Rightarrow> Inr None
            | Some k \<Rightarrow> Inr (find (\<lambda>d. rollNumber d = k) (docs s)))
      else Inl StoreUnavailable)"

text \<open>
  Whether a document repeats a key of a unique index: the index on \<^verbatim>\<open>_id\<close>, and one on
  each path that the schema declares \<^verbatim>\<open>unique\<close>.
\<close>

definition repeats_unique_key :: "student list \<Rightarrow> student \<Rightarrow> bool" where
  "repeats_unique_key ds d =
     (list_ex (\<lambda>x. oid x = oid d) ds \<or>
      (unique name_path \<and> list_ex (\<lambda>x. name x = name d) ds) \<or>
      (unique rollNumber_path \<and> list_ex (\<lambda>x. rollNumber x = rollNumber d) ds) \<or>
      (unique email_path \<and> list_ex (\<lambda>x. email x = email d) ds) \<or>
      (unique phone_path \<and> list_ex (\<lambda>x. phone x = phone d) ds) \<or>
      (unique event_path \<and> list_ex (\<lambda>x. event x = event d) ds))"

definition insertOne :: "store \<Rightarrow> student \<Rightarrow> store_error + store" where
  "insertOne s d =
     (if reachable s
      then (if repeats_unique_key (docs s) d then Inl DuplicateKey
            else Inr (s\<lparr>docs := docs s @ [d]\<rparr>))
      else Inl StoreUnavailable)"

text \<open>
  \<^verbatim>\<open>newStudent.save()\<close>: validation first, then the timestamps, then the insert.
  It returns the saved document and the store after the insert.
\<close>

definition save :: "int \<Rightarrow> store \<Rightarrow> new_document \<Rightarrow> store_error + (student \<times> store)" where
  "save now s d =
     (case (new_name d, new_rollNumber d, new_email d, new_phone d, new_event d) of
        (Some n, Some r, Some e, Some p, Some ev) \<Rightarrow>
          (if validate d
           then (let saved = \<lparr>oid = new_oid d, name = n, rollNumber = r, email = e,
                              phone = p, event = ev, createdAt = now, updatedAt = now\<rparr>
                 in case insertOne s saved of
                      Inl err \<Rightarrow> Inl err
                    | Inr s' \<Rightarrow> Inr (saved, s'))
           else Inl ValidationError)
      | _ \<Rightarrow> Inl ValidationError)"

text \<open>
  \<^verbatim>\<open>mongoose.Types.ObjectId.isValid(id)\<close> on a string: 24 hexadecimal digits. The ObjectId
  such a string is cast to does not depend on the case of its digits.
\<close>

definition isHexDigit :: "char \<Rightarrow> bool" where
  "isHexDigit c =
     (let n = (of_char c :: nat)
      in (48 \<le> n \<and> n \<le> 57) \<or> (65 \<le> n \<and> n \<le> 70) \<or> (97 \<le> n \<and> n \<le> 102))"

definition ObjectId_isValid :: "string \<Rightarrow> bool" where
  "ObjectId_isValid i = (length i = 24 \<and> list_all isHexDigit i)"

definition castObjectId :: "string \<Rightarrow> string option" where
  "castObjectId i = (if ObjectId_isValid i then Some (js_toLowerCase i) else None)"

text \<open>
  \<^verbatim>\<open>Student.findByIdAndDelete(id)\<close>: the first document with that \<^verbatim>\<open>_id\<close> is removed and
  returned; \<open>None\<close> (\<^verbatim>\<open>null\<close>) when there is none.
\<close>

definition findByIdAndDelete :: "store \<Rightarrow> string \<Rightarrow> store_error + (student option \<times> store)" where
  "findByIdAndDelete s i =
     (if reachable s
      then (case castObjectId i of
              None \<Rightarrow> Inl CastError
            | Some k \<Rightarrow>
                (case find (\<lambda>d. oid d = k) (docs s) of
                   None \<Rightarrow> Inr (None, s)
                 | Some d \<Rightarrow> Inr (Some d, s\<lparr>docs := remove1 d (docs s)\<rparr>)))
      else Inl StoreUnavailable)"

section \<open>The API service\<close>

text \<open>
  What \<^verbatim>\<open>res.status(...).json({...})\<close> sends: the status code and the properties of the
  JSON object, absent ones as \<open>None\<close>. \<open>error\<close> stands for \<^verbatim>\<open>error.message\<close>.
\<close>

datatype payload = One student | Many "student list"

record response =
  status :: nat
  success :: bool
  message :: "string option"
  count :: "nat option"
  data :: "payload option"
  error :: "store_error option"

definition failure :: "nat \<Rightarrow> string \<Rightarrow> response" where
  "failure code msg =
     \<lparr>status = code, success = False, message = Some msg, count = None, data = None,
      error = None\<rparr>"

definition server_error :: "string \<Rightarrow> store_error \<Rightarrow> response" where
  "server_error msg err =
     \<lparr>status = 500, success = False, message = Some msg, count = None, data = None,
      error = Some err\<rparr>"

text \<open>\<^verbatim>\<open>GET /students\<close> (lines 66 to 82).\<close>

definition get_students :: "store \<Rightarrow> response" where
  "get_students s =
     (case find_sort_createdAt_desc s of
        Inr students \<Rightarrow>
          \<lparr>status = 200, success = True, message = None, count = Some (length students),
           data = Some (Many students), error = None\<rparr>
      | Inl err \<Rightarrow> server_error ''Error fetching students'' err)"

text \<open>
  \<^verbatim>\<open>POST /students\<close> (lines 85 to 130). The handler waits twice for the store: at
  \<^verbatim>\<open>findOne\<close> and at \<^verbatim>\<open>save\<close>. Other requests may run in between, so the two calls
  are given the store as each of them finds it: \<open>s1\<close> at \<^verbatim>\<open>findOne\<close>, \<open>s2\<close> at
  \<^verbatim>\<open>save\<close>. \<open>i\<close> is the \<^verbatim>\<open>_id\<close> generated for the new document and \<open>now\<close> the clock at
  \<^verbatim>\<open>save\<close>. The result is the response and the store after the handler.
  \<open>n\<close>, \<open>r\<close>, \<open>e\<close>, \<open>p\<close>, \<open>ev\<close> are the destructured \<^verbatim>\<open>name\<close>, \<^verbatim>\<open>rollNumber\<close>,
  \<^verbatim>\<open>email\<close>, \<^verbatim>\<open>phone\<close>, \<^verbatim>\<open>event\<close>.
\<close>

definition post_students_interleaved ::
  "string \<Rightarrow> int \<Rightarrow> body \<Rightarrow> store \<Rightarrow> store \<Rightarrow> response \<times> store" where
  "post_students_interleaved i now b s1 s2 =
     (let n = b ''name''; r = b ''rollNumber''; e = b ''email''; p = b ''phone'';
          ev = b ''event''
      in if js_not n \<or> js_not r \<or> js_not e \<or> js_not p \<or> js_not ev
         then (failure 400 ''All fields are required'', s2)
         else (case findOne_rollNumber s1 r of
                 Inl err \<Rightarrow> (server_error ''Error registering student'' err, s2)
               | Inr (Some existingStudent) \<Rightarrow>
                   (failure 400 ''Student with this roll number already exists'', s2)
               | Inr None \<Rightarrow>
                   (case save now s2 (new_Student i n r e p ev) of
                      Inl err \<Rightarrow> (server_error ''Error registering student'' err, s2)
                    | Inr (savedStudent, s') \<Rightarrow>
                        (\<lparr>status = 201, success = True,
                          message = Some ''Student registered successfully!'',
                          count = None, data = Some (One savedStudent), error = None\<rparr>,
                         s'))))"

text \<open>A request that no other request interleaves with: both calls find the same store.\<close>

definition post_students :: "string \<Rightarrow> int \<Rightarrow> body \<Rightarrow> store \<Rightarrow> response \<times> store" where
  "post_students i now b s = post_students_interleaved i now b s s"

text \<open>\<^verbatim>\<open>DELETE /students/:id\<close> (lines 133 to 167).\<close>

definition delete_students_id :: "string \<Rightarrow> store \<Rightarrow> response \<times> store" where
  "delete_students_id i s =
     (if \<not> ObjectId_isValid i then (failure 400 ''Invalid student ID'', s)
      else (case findByIdAndDelete s i of
              Inl err \<Rightarrow> (server_error ''Error deleting student'' err, s)
            | Inr (None, s') \<Rightarrow> (failure 404 ''Student not found'', s')
            | Inr (Some deletedStudent, s') \<Rightarrow>
                (\<lparr>status = 200, success = True,
                  message = Some ''Student deleted successfully!'',
                  count = None, data = Some (One deletedStudent), error = None\<rparr>,
                 s')))"

section \<open>Configuration at startup\<close>

text \<open>
  \<^verbatim>\<open>process.env\<close> maps a variable's name to its value, a string. Line 192 reads
  \<^verbatim>\<open>process.env.PORT || 3000\<close>: the variable when it is set and not empty, else the
  number 3000. Line 17 binds \<^verbatim>\<open>mongoURI\<close> to a string literal; the literal embeds
  credentials and is not repeated here: the model takes it as the parameter \<open>mongoURI\<close>.
\<close>

type_synonym process_env = "string \<rightharpoonup> string"

datatype port = PortNumber nat | PortString string

definition PORT :: "process_env \<Rightarrow> port" where
  "PORT env =
     (case env ''PORT'' of
        None \<Rightarrow> PortNumber 3000
      | Some v \<Rightarrow> if v = [] then PortNumber 3000 else PortString v)"

record startup =
  connect_arg :: string
  listen_arg :: port

definition start :: "string \<Rightarrow> process_env \<Rightarrow> startup" where
  "start mongoURI env = \<lparr>connect_arg = mongoURI, listen_arg = PORT env\<rparr>"

section \<open>The static client\<close>

text \<open>
  \<^verbatim>\<open>escapeHtml\<close> (lines 284 to 288) sets the text of a fresh \<^verbatim>\<open>div\<close> element and reads
  its markup back. Setting \<^verbatim>\<open>textContent\<close> to a string replaces the children of the
  element by one text node holding the string, or by nothing when the string is empty.
  Reading \<^verbatim>\<open>innerHTML\<close> serialises the children, a text node as its data with
  \<^verbatim>\<open>&\<close>, NO-BREAK SPACE, \<^verbatim>\<open><\<close> and \<^verbatim>\<open>>\<close> replaced by character references.
\<close>

datatype node = Text string

definition set_textContent :: "string \<Rightarrow> node list" where
  "set_textContent text = (if text = [] then [] else [Text text])"

definition escape_unit :: "char \<Rightarrow> string" where
  "escape_unit c =
     (if c = CHR ''&'' then ''&amp;''
      else if c = CHR 0xA0 then ''&nbsp;''
      else if c = CHR ''<'' then ''&lt;''
      else if c = CHR ''>'' then ''&gt;''
      else [c])"

fun innerHTML :: "node list \<Rightarrow> string" where
  "innerHTML [] = []"
| "innerHTML (Text t # ns) = concat (map escape_unit t) @ innerHTML ns"

definition escapeHtml :: "string \<Rightarrow> string" where
  "escapeHtml text = innerHTML (set_textContent text)"

text \<open>
  The template literal of \<^verbatim>\<open>createStudentHTML\<close> (lines 176 to 204), as a function of what
  its placeholders insert: \<open>i\<close> for the two \<^verbatim>\<open>${student._id}\<close>, and \<open>n\<close>, \<open>r\<close>, \<open>e\<close>,
  \<open>p\<close>, \<open>ev\<close> for the five escaped fields in their order. The pictograph of the button's
  label lies outside the modelled code units and is written as the bytes of its UTF-8
  encoding.
\<close>

definition nl :: string where
  "nl = [CHR 0x0A]"

definition wastebasket :: string where
  "wastebasket = [CHR 0xF0, CHR 0x9F, CHR 0x97, CHR 0x91, CHR 0xEF, CHR 0xB8, CHR 0x8F]"

definition student_item ::
  "string \<Rightarrow> string \<Rightarrow> string \<Rightarrow> string \<Rightarrow> string \<Rightarrow> string \<Rightarrow> string" where
  \<open>student_item i n r e p ev =
     concat [
        nl,
        ''        <div class="student-item" data-student-id="'', i, ''">'', nl,
        ''            <div class="student-header">'', nl,
        ''                <div class="student-name">'', n, ''</div>'', nl,
        ''                <button class="btn btn-danger" onclick="deleteStudent('', [CHR 0x27], i, [CHR 0x27], '')">'', nl,
        ''                    '', wastebasket, '' Remove'', nl,
        ''                </button>'', nl,
        ''            </div>'', nl,
        ''            '', nl,
        ''            <div class="student-info">'', nl,
        ''                <div class="info-item">'', nl,
        ''                    <span class="info-label">Roll Number:</span>'', nl,
        ''                    <span class="info-value">'', r, ''</span>'', nl,
        ''                </div>'', nl,
        ''                <div class="info-item">'', nl,
        ''                    <span class="info-label">Email:</span>'', nl,
        ''                    <span class="info-value">'', e, ''</span>'', nl,
        ''                </div>'', nl,
        ''                <div class="info-item">'', nl,
        ''                    <span class="info-label">Phone:</span>'', nl,
        ''                    <span class="info-value">'', p, ''</span>'', nl,
        ''                </div>'', nl,
        ''                <div class="info-item">'', nl,
        ''                    <span class="info-label">Event:</span>'', nl,
        ''                    <span class="event-badge">'', ev, ''</span>'', nl,
        ''                </div>'', nl,
        ''            </div>'', nl,
        ''        </div>'', nl,
        ''    '']\<close>

definition createStudentHTML :: "student \<Rightarrow> string" where
  "createStudentHTML student =
     student_item (oid student) (escapeHtml (name student)) (escapeHtml (rollNumber student))
       (escapeHtml (email student)) (escapeHtml (phone student)) (escapeHtml (event student))"

text \<open>
  The reference the rendering is compared with: the text with each character that could
  start markup or a character reference, and NO-BREAK SPACE, written as its named character
  reference.
\<close>

fun html_escape_reference :: "string \<Rightarrow> string" where
  "html_escape_reference [] = []"
| "html_escape_reference (c # cs) =
     (if c = CHR ''&'' then ''&amp;'' @ html_escape_reference cs
      else if c = CHR ''<'' then ''&lt;'' @ html_escape_reference cs
      else if c = CHR ''>'' then ''&gt;'' @ html_escape_reference cs
      else if c = CHR 0xA0 then ''&nbsp;'' @ html_escape_reference cs
      else c # html_escape_reference cs)"

text \<open>
  What a browser reads back from escaped text: each of the four named character references
  stands for its character.
\<close>

fun html_unescape :: "string \<Rightarrow> string" where
  "html_unescape [] = []"
| "html_unescape (c # cs) =
     (if c = CHR ''&'' \<and> take 4 cs = ''amp;'' then CHR ''&'' # html_unescape (drop 4 cs)
      else if c = CHR ''&'' \<and> take 3 cs = ''lt;'' then CHR ''<'' # html_unescape (drop 3 cs)
      else if c = CHR ''&'' \<and> take 3 cs = ''gt;'' then CHR ''>'' # html_unescape (drop 3 cs)
      else if c = CHR ''&'' \<and> take 5 cs = ''nbsp;''
        then CHR 0xA0 # html_unescape (drop 5 cs)
      else c # html_unescape cs)"

section \<open>Notions the properties are stated with\<close>

text \<open>
  A field is valid text when it is a string with something left after trimming; the event
  is never trimmed, so it is valid when it is a string that is not empty. These are the
  constraints of the Student entity.
\<close>

definition nonblank_text :: "jsval option \<Rightarrow> bool" where
  "nonblank_text v = (case v of Some (JStr s) \<Rightarrow> js_trim s \<noteq> [] | _ \<Rightarrow> False)"

definition nonempty_text :: "jsval option \<Rightarrow> bool" where
  "nonempty_text v = (case v of Some (JStr s) \<Rightarrow> s \<noteq> [] | _ \<Rightarrow> False)"

definition valid_fields :: "body \<Rightarrow> bool" where
  "valid_fields b =
     (nonblank_text (b ''name'') \<and> nonblank_text (b ''rollNumber'') \<and>
      nonblank_text (b ''email'') \<and> nonblank_text (b ''phone'') \<and>
      nonempty_text (b ''event''))"

text \<open>The document that a body of five strings is stored as, given its id and the clock.\<close>

definition stored_form :: "string \<Rightarrow> int \<Rightarrow> body \<Rightarrow> student option" where
  "stored_form i now b =
     (case (b ''name'', b ''rollNumber'', b ''email'', b ''phone'', b ''event'') of
        (Some (JStr n), Some (JStr r), Some (JStr e), Some (JStr p), Some (JStr ev)) \<Rightarrow>
          Some \<lparr>oid = i, name = js_trim n, rollNumber = js_trim r,
                email = js_toLowerCase (js_trim e), phone = js_trim p, event = ev,
                createdAt = now, updatedAt = now\<rparr>
      | _ \<Rightarrow> None)"

text \<open>A Student apart from the id and the timestamps that the store assigns.\<close>

definition fields_of :: "student \<Rightarrow> string \<times> string \<times> string \<times> string \<times> string" where
  "fields_of d = (name d, rollNumber d, email d, phone d, event d)"

text \<open>A field that is a string of white space only (the empty string included).\<close>

definition whitespace_only :: "jsval option \<Rightarrow> bool" where
  "whitespace_only v = (case v of Some (JStr s) \<Rightarrow> js_trim s = [] | _ \<Rightarrow> False)"

subsection \<open>Concrete requests and stores\<close>

definition store_empty :: store where
  "store_empty = \<lparr>docs = [], reachable = True\<rparr>"

definition body_A :: body where
  "body_A = map_of [(''name'', JStr ''A''), (''rollNumber'', JStr ''R1''),
     (''email'', JStr ''A@x.com''), (''phone'', JStr ''1234567890''),
     (''event'', JStr ''Dance'')]"

definition body_B :: body where
  "body_B = map_of [(''name'', JStr ''B''), (''rollNumber'', JStr ''R2''),
     (''email'', JStr ''b@x.com''), (''phone'', JStr ''12-34-567-890''),
     (''event'', JStr ''Music'')]"

definition body_C :: body where
  "body_C = map_of [(''name'', JStr ''C''), (''rollNumber'', JStr ''R3''),
     (''email'', JStr ''c@x.com''), (''phone'', JStr ''0987654321''),
     (''event'', JStr ''Drama'')]"

definition id_A :: string where
  "id_A = ''65f000000000000000000001''"

definition id_B :: string where
  "id_B = ''65f000000000000000000002''"

definition id_C :: string where
  "id_C = ''65f000000000000000000003''"

definition student_A :: student where
  "student_A = \<lparr>oid = id_A, name = ''A'', rollNumber = ''R1'', email = ''a@x.com'',
     phone = ''1234567890'', event = ''Dance'', createdAt = 1000, updatedAt = 1000\<rparr>"

definition student_B :: student where
  "student_B = \<lparr>oid = id_B, name = ''B'', rollNumber = ''R2'', email = ''b@x.com'',
     phone = ''12-34-567-890'', event = ''Music'', createdAt = 2000, updatedAt = 2000\<rparr>"

definition student_C :: student where
  "student_C = \<lparr>oid = id_C, name = ''C'', rollNumber = ''R3'', email = ''c@x.com'',
     phone = ''0987654321'', event = ''Drama'', createdAt = 3000, updatedAt = 3000\<rparr>"

definition store_A :: store where
  "store_A = \<lparr>docs = [student_A], reachable = True\<rparr>"

definition store_AB :: store where
  "store_AB = \<lparr>docs = [student_A, student_B], reachable = True\<rparr>"

definition store_ABC :: store where
  "store_ABC = \<lparr>docs = [student_A, student_B, student_C], reachable = True\<rparr>"

text \<open>The request of \<open>body_A\<close> with one more property that the schema does not know.\<close>

definition body_A_extra :: body where
  "body_A_extra = map_of [(''name'', JStr ''A''), (''rollNumber'', JStr ''R1''),
     (''email'', JStr ''A@x.com''), (''phone'', JStr ''1234567890''),
     (''event'', JStr ''Dance''), (''createdAt'', JNum 0), (''isAdmin'', JBool True)]"

text \<open>Requests with a field that is absent, and with a field of white space only.\<close>

definition body_missing_phone :: body where
  "body_missing_phone = map_of [(''name'', JStr ''A''), (''rollNumber'', JStr ''R1''),
     (''email'', JStr ''A@x.com''), (''event'', JStr ''Dance'')]"

definition body_blank_name :: body where
  "body_blank_name = map_of [(''name'', JStr ''   ''), (''rollNumber'', JStr ''R1''),
     (''email'', JStr ''A@x.com''), (''phone'', JStr ''1234567890''),
     (''event'', JStr ''Dance'')]"

definition body_blank_event :: body where
  "body_blank_event = map_of [(''name'', JStr ''A''), (''rollNumber'', JStr ''R1''),
     (''email'', JStr ''A@x.com''), (''phone'', JStr ''1234567890''),
     (''event'', JStr ''   '')]"

definition student_blank_event :: student where
  "student_blank_event = \<lparr>oid = id_A, name = ''A'', rollNumber = ''R1'',
     email = ''a@x.com'', phone = ''1234567890'', event = ''   '', createdAt = 1000,
     updatedAt = 1000\<rparr>"

text \<open>A request whose email has a space before and after it.\<close>

definition body_padded_email :: body where
  "body_padded_email = map_of [(''name'', JStr ''A''), (''rollNumber'', JStr ''R1''),
     (''email'', JStr '' A@x.com ''), (''phone'', JStr ''1234567890''),
     (''event'', JStr ''Dance'')]"

text \<open>A second request for the roll number of \<open>body_A\<close>, sent with spaces around it.\<close>

definition body_padded_rollNumber :: body where
  "body_padded_rollNumber = map_of [(''name'', JStr ''A again''),
     (''rollNumber'', JStr '' R1 ''), (''email'', JStr ''again@x.com''),
     (''phone'', JStr ''1234567890''), (''event'', JStr ''Music'')]"

text \<open>A stored Student whose name holds markup.\<close>

definition student_markup :: student where
  "student_markup = \<lparr>oid = id_A, name = ''<b>A & B</b>'', rollNumber = ''R1'',
     email = ''a@x.com'', phone = ''1234567890'', event = ''Dance'', createdAt = 1000,
     updatedAt = 1000\<rparr>"

text \<open>Process environments: one that sets \<^verbatim>\<open>PORT\<close>, one that sets another variable only.\<close>

definition env_port :: process_env where
  "env_port = map_of [(''PORT'', ''8080''), (''MONGODB_URI'', ''mongodb://db.example/fest'')]"

definition env_no_port :: process_env where
  "env_no_port = map_of [(''MONGODB_URI'', ''mongodb://db.example/fest'')]"

section \<open>Basic facts about the model\<close>

lemma js_trim_Nil [simp]: "js_trim [] = []"
  by (simp add: js_trim_def)

lemma js_trim_nonempty: "js_trim s \<noteq> [] \<Longrightarrow> s \<noteq> []"
  by auto

lemma js_toLowerCase_Nil_iff [simp]: "js_toLowerCase s = [] \<longleftrightarrow> s = []"
  by (simp add: js_toLowerCase_def)

lemma applySetters_name [simp]:
  "applySetters name_path (Some (JStr s)) = Some (js_trim s)"
  by (simp add: applySetters_def name_path_def)

lemma applySetters_rollNumber [simp]:
  "applySetters rollNumber_path (Some (JStr s)) = Some (js_trim s)"
  by (simp add: applySetters_def rollNumber_path_def)

lemma applySetters_email [simp]:
  "applySetters email_path (Some (JStr s)) = Some (js_toLowerCase (js_trim s))"
  by (simp add: applySetters_def email_path_def)

lemma applySetters_phone [simp]:
  "applySetters phone_path (Some (JStr s)) = Some (js_trim s)"
  by (simp add: applySetters_def phone_path_def)

lemma applySetters_event [simp]: "applySetters event_path v = castString v"
  by (cases "castString v") (simp_all add: applySetters_def event_path_def)

lemma checkRequired_paths [simp]:
  "checkRequired name_path v = (case v of None \<Rightarrow> False | Some s \<Rightarrow> s \<noteq> [])"
  "checkRequired rollNumber_path v = (case v of None \<Rightarrow> False | Some s \<Rightarrow> s \<noteq> [])"
  "checkRequired email_path v = (case v of None \<Rightarrow> False | Some s \<Rightarrow> s \<noteq> [])"
  "checkRequired phone_path v = (case v of None \<Rightarrow> False | Some s \<Rightarrow> s \<noteq> [])"
  "checkRequired event_path v = (case v of None \<Rightarrow> False | Some s \<Rightarrow> s \<noteq> [])"
  by (simp_all add: checkRequired_def name_path_def rollNumber_path_def email_path_def
      phone_path_def event_path_def)

lemma repeats_unique_key_iff [simp]:
  "repeats_unique_key ds d \<longleftrightarrow>
     list_ex (\<lambda>x. oid x = oid d) ds \<or> list_ex (\<lambda>x. rollNumber x = rollNumber d) ds"
  by (simp add: repeats_unique_key_def name_path_def rollNumber_path_def email_path_def
      phone_path_def event_path_def)

lemma find_list_ex: "list_ex P xs \<Longrightarrow> \<exists>d. find P xs = Some d \<and> d \<in> set xs \<and> P d"
  by (induction xs) auto

lemma find_not_list_ex: "\<not> list_ex P xs \<Longrightarrow> find P xs = None"
  by (induction xs) auto

lemma nonblank_textE:
  assumes "nonblank_text v"
  obtains s where "v = Some (JStr s)" "js_trim s \<noteq> []" "s \<noteq> []"
  using assms js_trim_nonempty
  by (auto simp: nonblank_text_def split: option.splits jsval.splits)

lemma nonempty_textE:
  assumes "nonempty_text v"
  obtains s where "v = Some (JStr s)" "s \<noteq> []"
  using assms by (auto simp: nonempty_text_def split: option.splits jsval.splits)

lemma stored_form_rollNumber:
  "stored_form i now b = Some d \<Longrightarrow>
   Some (rollNumber d) = applySetters rollNumber_path (b ''rollNumber'')"
  by (auto simp: stored_form_def split: option.splits jsval.splits)

subsection \<open>A create that succeeds, and one that meets a stored roll number\<close>

lemma post_students_valid:
  assumes v: "valid_fields b" and re: "reachable s"
    and fr: "\<not> list_ex (\<lambda>d. Some (rollNumber d) =
                applySetters rollNumber_path (b ''rollNumber'')) (docs s)"
    and fi: "\<not> list_ex (\<lambda>d. oid d = i) (docs s)"
  shows "\<exists>d. stored_form i now b = Some d \<and>
           post_students i now b s =
             (\<lparr>status = 201, success = True,
               message = Some ''Student registered successfully!'',
               count = None, data = Some (One d), error = None\<rparr>,
              s\<lparr>docs := docs s @ [d]\<rparr>)"
proof -
  from v obtain n where n: "b ''name'' = Some (JStr n)" "js_trim n \<noteq> []" "n \<noteq> []"
    by (auto simp: valid_fields_def elim: nonblank_textE)
  from v obtain r where r: "b ''rollNumber'' = Some (JStr r)" "js_trim r \<noteq> []" "r \<noteq> []"
    by (auto simp: valid_fields_def elim: nonblank_textE)
  from v obtain e where e: "b ''email'' = Some (JStr e)" "js_trim e \<noteq> []" "e \<noteq> []"
    by (auto simp: valid_fields_def elim: nonblank_textE)
  from v obtain p where p: "b ''phone'' = Some (JStr p)" "js_trim p \<noteq> []" "p \<noteq> []"
    by (auto simp: valid_fields_def elim: nonblank_textE)
  from v obtain ev where ev: "b ''event'' = Some (JStr ev)" "ev \<noteq> []"
    by (auto simp: valid_fields_def elim: nonempty_textE)
  from fr r have fr': "\<not> list_ex (\<lambda>d. rollNumber d = js_trim r) (docs s)"
    by (simp add: list_ex_iff)
  have f: "findOne_rollNumber s (b ''rollNumber'') = Inr None"
    using re r fr' by (simp add: findOne_rollNumber_def find_not_list_ex)
  let ?d = "\<lparr>oid = i, name = js_trim n, rollNumber = js_trim r,
              email = js_toLowerCase (js_trim e), phone = js_trim p, event = ev,
              createdAt = now, updatedAt = now\<rparr>"
  let ?new = "new_Student i (b ''name'') (b ''rollNumber'') (b ''email'') (b ''phone'')
                (b ''event'')"
  have val: "validate ?new"
    using n r e p ev by (simp add: validate_def new_Student_def)
  have ins: "insertOne s ?d = Inr (s\<lparr>docs := docs s @ [?d]\<rparr>)"
    using re fr' fi by (simp add: insertOne_def)
  have sv: "save now s ?new = Inr (?d, s\<lparr>docs := docs s @ [?d]\<rparr>)"
    unfolding save_def using val ins n r e p ev by (simp add: new_Student_def Let_def)
  have sf: "stored_form i now b = Some ?d"
    using n r e p ev by (simp add: stored_form_def)
  have "post_students i now b s =
          (\<lparr>status = 201, success = True,
            message = Some ''Student registered successfully!'',
            count = None, data = Some (One ?d), error = None\<rparr>,
           s\<lparr>docs := docs s @ [?d]\<rparr>)"
    unfolding post_students_def post_students_interleaved_def
    using n r e p ev f sv by simp
  with sf show ?thesis by blast
qed

lemma post_students_duplicate:
  assumes v: "valid_fields b" and re: "reachable s"
    and ex: "list_ex (\<lambda>d. Some (rollNumber d) =
               applySetters rollNumber_path (b ''rollNumber'')) (docs s)"
  shows "post_students i now b s =
           (failure 400 ''Student with this roll number already exists'', s)"
proof -
  from v obtain n where n: "b ''name'' = Some (JStr n)" "n \<noteq> []"
    by (auto simp: valid_fields_def elim: nonblank_textE)
  from v obtain r where r: "b ''rollNumber'' = Some (JStr r)" "r \<noteq> []"
    by (auto simp: valid_fields_def elim: nonblank_textE)
  from v obtain e where e: "b ''email'' = Some (JStr e)" "e \<noteq> []"
    by (auto simp: valid_fields_def elim: nonblank_textE)
  from v obtain p where p: "b ''phone'' = Some (JStr p)" "p \<noteq> []"
    by (auto simp: valid_fields_def elim: nonblank_textE)
  from v obtain ev where ev: "b ''event'' = Some (JStr ev)" "ev \<noteq> []"
    by (auto simp: valid_fields_def elim: nonempty_textE)
  from ex r have "list_ex (\<lambda>d. rollNumber d = js_trim r) (docs s)"
    by (simp add: list_ex_iff)
  from find_list_ex [OF this] obtain d where
    "find (\<lambda>d. rollNumber d = js_trim r) (docs s) = Some d" by blast
  then have f: "findOne_rollNumber s (b ''rollNumber'') = Inr (Some d)"
    using re r by (simp add: findOne_rollNumber_def)
  show ?thesis
    unfolding post_students_def post_students_interleaved_def
    using n r e p ev f by simp
qed

subsection \<open>The concrete requests\<close>

lemma valid_body_A: "valid_fields body_A"
  by (simp add: valid_fields_def nonblank_text_def nonempty_text_def body_A_def js_trim_def
      isWhiteSpace_def)

lemma valid_ids:
  "\<not> ObjectId_isValid ''R1''"
  "ObjectId_isValid id_B"
  "ObjectId_isValid ''65F000000000000000000001''"
  "js_toLowerCase id_B = id_B"
  "js_toLowerCase ''65F000000000000000000001'' = id_A"
  by (simp_all add: ObjectId_isValid_def isHexDigit_def id_B_def id_A_def js_toLowerCase_def
      toLowerCase_unit_def char_of_eq_iff)

lemmas example_defs = body_A_def body_B_def body_C_def id_A_def id_B_def id_C_def
  student_A_def student_B_def student_C_def store_A_def store_AB_def store_ABC_def
  store_empty_def body_A_extra_def body_missing_phone_def body_blank_name_def
  body_blank_event_def student_blank_event_def body_padded_email_def

lemmas model_defs = post_students_def post_students_interleaved_def findOne_rollNumber_def
  save_def insertOne_def new_Student_def validate_def failure_def server_error_def
  js_trim_def isWhiteSpace_def js_toLowerCase_def toLowerCase_unit_def Let_def

lemma post_students_body_A:
  "post_students id_A 1000 body_A store_empty =
     (\<lparr>status = 201, success = True, message = Some ''Student registered successfully!'',
       count = None, data = Some (One student_A), error = None\<rparr>, store_A)"
  by (simp add: example_defs model_defs char_of_eq_iff)

lemma post_students_body_B:
  "post_students id_B 2000 body_B store_A =
     (\<lparr>status = 201, success = True, message = Some ''Student registered successfully!'',
       count = None, data = Some (One student_B), error = None\<rparr>, store_AB)"
  by (simp add: example_defs model_defs char_of_eq_iff)

lemma post_students_body_C:
  "post_students id_C 3000 body_C store_AB =
     (\<lparr>status = 201, success = True, message = Some ''Student registered successfully!'',
       count = None, data = Some (One student_C), error = None\<rparr>, store_ABC)"
  by (simp add: example_defs model_defs char_of_eq_iff)

lemma get_students_reachable:
  "reachable s \<Longrightarrow>
   get_students s =
     \<lparr>status = 200, success = True, message = None,
      count = Some (length (docs s)),
      data = Some (Many (sort_key (\<lambda>d. - createdAt d) (docs s))), error = None\<rparr>"
  by (simp add: get_students_def find_sort_createdAt_desc_def)

section \<open>A duplicate key that the store reports\<close>

text \<open>
  The unique index holds under every interleaving: whatever store \<^verbatim>\<open>findOne\<close> saw, a
  store with distinct roll numbers at \<^verbatim>\<open>save\<close> has distinct roll numbers after it.
\<close>

lemma post_students_interleaved_distinct:
  assumes "post_students_interleaved i now b s1 s2 = (r, s')"
    and "distinct (map rollNumber (docs s2))"
  shows "distinct (map rollNumber (docs s'))"
  using assms
  by (auto simp: post_students_interleaved_def save_def insertOne_def Let_def list_ex_iff
      split: sum.splits option.splits if_splits)

text \<open>
  Claim C1, evaluated on the handler. Two requests with the body \<open>body_A\<close> reach the
  service together. Both run \<^verbatim>\<open>findOne\<close> on the empty store and find nothing. The first
  then saves: 201, and the store holds \<open>student_A\<close>. The second saves into that store: the
  unique index on \<^verbatim>\<open>rollNumber\<close> rejects the insert, and the handler's \<^verbatim>\<open>catch\<close> answers
  500 \<^verbatim>\<open>Error registering student\<close>, where the claim has 400 with the message of the
  duplicate check.
\<close>

theorem storage_duplicate_gives_500:
  "post_students_interleaved id_A 1000 body_A store_empty store_empty =
     (\<lparr>status = 201, success = True, message = Some ''Student registered successfully!'',
       count = None, data = Some (One student_A), error = None\<rparr>, store_A) \<and>
   post_students_interleaved id_B 1001 body_A store_empty store_A =
     (\<lparr>status = 500, success = False, message = Some ''Error registering student'',
       count = None, data = None, error = Some DuplicateKey\<rparr>, store_A)"
  by (simp add: example_defs model_defs char_of_eq_iff)

section \<open>Required fields\<close>

lemma post_students_guard:
  assumes "js_not (b ''name'') \<or> js_not (b ''rollNumber'') \<or> js_not (b ''email'') \<or>
     js_not (b ''phone'') \<or> js_not (b ''event'')"
  shows "post_students i now b s = (failure 400 ''All fields are required'', s)"
  using assms by (auto simp: post_students_def post_students_interleaved_def)

lemma save_invalid: "\<not> validate d \<Longrightarrow> save now s d = Inl ValidationError"
  by (simp add: save_def split: option.splits)

lemma post_students_invalid_unchanged:
  assumes "\<not> validate (new_Student i (b ''name'') (b ''rollNumber'') (b ''email'')
                 (b ''phone'') (b ''event''))"
  shows "snd (post_students i now b s) = s"
  using save_invalid [OF assms]
  by (simp add: post_students_def post_students_interleaved_def Let_def
      split: sum.splits option.splits)

lemma whitespace_onlyE:
  assumes "whitespace_only v"
  obtains w where "v = Some (JStr w)" "js_trim w = []"
  using assms by (auto simp: whitespace_only_def split: option.splits jsval.splits)

lemma whitespace_only_invalid:
  assumes "whitespace_only (b ''name'') \<or> whitespace_only (b ''rollNumber'') \<or>
     whitespace_only (b ''email'') \<or> whitespace_only (b ''phone'')"
  shows "\<not> validate (new_Student i (b ''name'') (b ''rollNumber'') (b ''email'')
                 (b ''phone'') (b ''event''))"
  using assms by (auto simp: validate_def new_Student_def elim!: whitespace_onlyE)

text \<open>
  A name of white space only passes the check of line 90, fails the validation of
  \<^verbatim>\<open>save\<close>, and is answered by the handler's \<^verbatim>\<open>catch\<close>: 500, nothing stored.
\<close>

lemma post_students_blank_name:
  "post_students id_A 1000 body_blank_name store_empty =
     (\<lparr>status = 500, success = False, message = Some ''Error registering student'',
       count = None, data = None, error = Some ValidationError\<rparr>, store_empty)"
  by (simp add: example_defs model_defs)

lemma post_students_invalid_refused:
  assumes "\<not> validate (new_Student i (b ''name'') (b ''rollNumber'') (b ''email'')
                 (b ''phone'') (b ''event''))"
  shows "success (fst (post_students i now b s)) = False"
  using save_invalid [OF assms]
  by (simp add: post_students_def post_students_interleaved_def Let_def failure_def
      server_error_def split: sum.splits option.splits)

lemma all_white_space_trim:
  assumes "list_all isWhiteSpace w"
  shows "js_trim w = []"
proof -
  from assms have "dropWhile isWhiteSpace w = []"
    by (simp add: dropWhile_eq_Nil_conv list_all_iff)
  then show ?thesis by (simp only: js_trim_def rev.simps dropWhile.simps)
qed

lemma falsy_values:
  "v \<in> {None, Some JNull, Some (JBool False), Some (JNum 0), Some (JStr [])} \<Longrightarrow> js_not v"
  by auto

text \<open>
  Claim C2, as the code has it. When one of the five fields is absent, \<^verbatim>\<open>null\<close>,
  \<^verbatim>\<open>false\<close>, \<^verbatim>\<open>0\<close> or the empty string, \<^verbatim>\<open>POST /students\<close> answers 400 with
  \<^verbatim>\<open>success: false\<close> and the message \<^verbatim>\<open>All fields are required\<close>, and the store is
  unchanged. When name, rollNumber, email or phone is a string of white space only, the
  answer has \<^verbatim>\<open>success: false\<close> and the store is unchanged.
\<close>

theorem create_rejects_missing_fields:
  "((\<exists>k \<in> {''name'', ''rollNumber'', ''email'', ''phone'', ''event''}.
       b k \<in> {None, Some JNull, Some (JBool False), Some (JNum 0), Some (JStr [])}) \<longrightarrow>
      post_students i now b s =
        (\<lparr>status = 400, success = False, message = Some ''All fields are required'',
          count = None, data = None, error = None\<rparr>, s)) \<and>
   ((\<exists>k \<in> {''name'', ''rollNumber'', ''email'', ''phone''}.
       \<exists>w. b k = Some (JStr w) \<and> list_all isWhiteSpace w) \<longrightarrow>
      success (fst (post_students i now b s)) = False \<and>
      snd (post_students i now b s) = s)"
proof (rule conjI [OF impI impI])
  assume "\<exists>k \<in> {''name'', ''rollNumber'', ''email'', ''phone'', ''event''}.
       b k \<in> {None, Some JNull, Some (JBool False), Some (JNum 0), Some (JStr [])}"
  then have "js_not (b ''name'') \<or> js_not (b ''rollNumber'') \<or> js_not (b ''email'') \<or>
     js_not (b ''phone'') \<or> js_not (b ''event'')"
    using falsy_values by blast
  from post_students_guard [OF this]
  show "post_students i now b s =
        (\<lparr>status = 400, success = False, message = Some ''All fields are required'',
          count = None, data = None, error = None\<rparr>, s)"
    by (simp add: failure_def)
next
  assume "\<exists>k \<in> {''name'', ''rollNumber'', ''email'', ''phone''}.
       \<exists>w. b k = Some (JStr w) \<and> list_all isWhiteSpace w"
  then have "whitespace_only (b ''name'') \<or> whitespace_only (b ''rollNumber'') \<or>
     whitespace_only (b ''email'') \<or> whitespace_only (b ''phone'')"
    using all_white_space_trim by (auto simp: whitespace_only_def)
  from whitespace_only_invalid [OF this]
  have inv: "\<not> validate (new_Student i (b ''name'') (b ''rollNumber'') (b ''email'')
                 (b ''phone'') (b ''event''))" .
  show "success (fst (post_students i now b s)) = False \<and>
      snd (post_students i now b s) = s"
    using post_students_invalid_refused [OF inv] post_students_invalid_unchanged [OF inv]
    by simp
qed

theorem create_rejects_missing_fields_witness:
  "body_missing_phone ''phone'' = None \<and>
   post_students id_B 2000 body_missing_phone store_A =
     (\<lparr>status = 400, success = False, message = Some ''All fields are required'',
       count = None, data = None, error = None\<rparr>, store_A) \<and>
   body_blank_name ''name'' = Some (JStr ''   '') \<and> list_all isWhiteSpace ''   '' \<and>
   success (fst (post_students id_A 1000 body_blank_name store_empty)) = False \<and>
   snd (post_students id_A 1000 body_blank_name store_empty) = store_empty"
proof -
  have h1: "body_missing_phone ''phone'' = None"
    by (simp add: body_missing_phone_def)
  have h2: "body_blank_name ''name'' = Some (JStr ''   '')"
    by (simp add: body_blank_name_def)
  have h3: "list_all isWhiteSpace ''   ''"
    by (simp add: isWhiteSpace_def)
  from h1 have a: "\<exists>k \<in> {''name'', ''rollNumber'', ''email'', ''phone'', ''event''}.
       body_missing_phone k \<in>
         {None, Some JNull, Some (JBool False), Some (JNum 0), Some (JStr [])}"
    by simp
  from h2 h3 have b: "\<exists>k \<in> {''name'', ''rollNumber'', ''email'', ''phone''}.
       \<exists>w. body_blank_name k = Some (JStr w) \<and> list_all isWhiteSpace w"
    by simp
  note t1 = create_rejects_missing_fields [of body_missing_phone id_B 2000 store_A]
  note t2 = create_rejects_missing_fields [of body_blank_name id_A 1000 store_empty]
  from t1 a have c1: "post_students id_B 2000 body_missing_phone store_A =
     (\<lparr>status = 400, success = False, message = Some ''All fields are required'',
       count = None, data = None, error = None\<rparr>, store_A)"
    by blast
  from t2 b have c2: "success (fst (post_students id_A 1000 body_blank_name store_empty)) = False \<and>
   snd (post_students id_A 1000 body_blank_name store_empty) = store_empty"
    by blast
  from h1 h2 h3 c1 c2 show ?thesis by blast
qed

text \<open>
  The claim as it is written fails on an event of white space only: the check of line 90
  takes the string as present, the schema does not trim the event, and the document is
  stored with status 201.
\<close>

theorem create_blank_event_counterexample:
  "body_blank_event ''event'' = Some (JStr ''   '') \<and> list_all isWhiteSpace ''   '' \<and>
   post_students id_A 1000 body_blank_event store_empty =
     (\<lparr>status = 201, success = True, message = Some ''Student registered successfully!'',
       count = None, data = Some (One student_blank_event), error = None\<rparr>,
      \<lparr>docs = [student_blank_event], reachable = True\<rparr>)"
  by (simp add: example_defs model_defs char_of_eq_iff)

section \<open>Deleting a student\<close>

lemma delete_invalid:
  "\<not> ObjectId_isValid i \<Longrightarrow>
   delete_students_id i s = (failure 400 ''Invalid student ID'', s)"
  by (simp add: delete_students_id_def)

lemma delete_absent:
  assumes "ObjectId_isValid i" "reachable s"
    "\<not> list_ex (\<lambda>d. oid d = js_toLowerCase i) (docs s)"
  shows "delete_students_id i s = (failure 404 ''Student not found'', s)"
  using assms
  by (simp add: delete_students_id_def findByIdAndDelete_def castObjectId_def
      find_not_list_ex)

lemma delete_present:
  assumes "ObjectId_isValid i" "reachable s"
    "list_ex (\<lambda>d. oid d = js_toLowerCase i) (docs s)"
  shows "\<exists>d. d \<in> set (docs s) \<and> oid d = js_toLowerCase i \<and>
         delete_students_id i s =
           (\<lparr>status = 200, success = True,
             message = Some ''Student deleted successfully!'',
             count = None, data = Some (One d), error = None\<rparr>,
            s\<lparr>docs := remove1 d (docs s)\<rparr>)"
proof -
  from find_list_ex [OF assms(3)] obtain d where
    d: "find (\<lambda>d. oid d = js_toLowerCase i) (docs s) = Some d" "d \<in> set (docs s)"
       "oid d = js_toLowerCase i"
    by blast
  have "delete_students_id i s =
           (\<lparr>status = 200, success = True,
             message = Some ''Student deleted successfully!'',
             count = None, data = Some (One d), error = None\<rparr>,
            s\<lparr>docs := remove1 d (docs s)\<rparr>)"
    using assms(1,2) d(1)
    by (simp add: delete_students_id_def findByIdAndDelete_def castObjectId_def)
  with d show ?thesis by blast
qed

text \<open>
  Claim C3. \<^verbatim>\<open>DELETE /students/:id\<close> answers 400 \<^verbatim>\<open>Invalid student ID\<close> with
  \<^verbatim>\<open>success: false\<close> when the id is not a well-formed ObjectId, and leaves the store as
  it is. When the id is well formed
  and the store is reachable, it answers 404 \<^verbatim>\<open>Student not found\<close> and leaves the store
  as it is if no document has that id (the ObjectId the string denotes, whatever the case
  of its digits); otherwise it answers 200 with a document of the store that has that id
  as \<^verbatim>\<open>data\<close>, and that document is removed from the store.
\<close>

theorem delete_students_id_cases:
  "(\<not> ObjectId_isValid i \<longrightarrow>
      delete_students_id i s =
        (\<lparr>status = 400, success = False, message = Some ''Invalid student ID'',
          count = None, data = None, error = None\<rparr>, s)) \<and>
   (ObjectId_isValid i \<and> reachable s \<and>
    \<not> list_ex (\<lambda>d. oid d = js_toLowerCase i) (docs s) \<longrightarrow>
      delete_students_id i s =
        (\<lparr>status = 404, success = False, message = Some ''Student not found'',
          count = None, data = None, error = None\<rparr>, s)) \<and>
   (ObjectId_isValid i \<and> reachable s \<and>
    list_ex (\<lambda>d. oid d = js_toLowerCase i) (docs s) \<longrightarrow>
      (\<exists>d. d \<in> set (docs s) \<and> oid d = js_toLowerCase i \<and>
         delete_students_id i s =
           (\<lparr>status = 200, success = True,
             message = Some ''Student deleted successfully!'',
             count = None, data = Some (One d), error = None\<rparr>,
            s\<lparr>docs := remove1 d (docs s)\<rparr>)))"
  using delete_invalid delete_absent delete_present unfolding failure_def by blast

theorem delete_students_id_cases_witness:
  "\<not> ObjectId_isValid ''R1'' \<and>
   delete_students_id ''R1'' store_A =
     (\<lparr>status = 400, success = False, message = Some ''Invalid student ID'',
       count = None, data = None, error = None\<rparr>, store_A) \<and>
   ObjectId_isValid id_B \<and> reachable store_A \<and>
   \<not> list_ex (\<lambda>d. oid d = js_toLowerCase id_B) (docs store_A) \<and>
   delete_students_id id_B store_A =
     (\<lparr>status = 404, success = False, message = Some ''Student not found'',
       count = None, data = None, error = None\<rparr>, store_A) \<and>
   ObjectId_isValid ''65F000000000000000000001'' \<and>
   list_ex (\<lambda>d. oid d = js_toLowerCase ''65F000000000000000000001'') (docs store_A) \<and>
   delete_students_id ''65F000000000000000000001'' store_A =
     (\<lparr>status = 200, success = True, message = Some ''Student deleted successfully!'',
       count = None, data = Some (One student_A), error = None\<rparr>, store_empty)"
proof -
  have r: "reachable store_A" by (simp add: store_A_def)
  have a: "\<not> list_ex (\<lambda>d. oid d = js_toLowerCase id_B) (docs store_A)"
    using valid_ids(4) by (simp add: store_A_def student_A_def id_A_def id_B_def)
  have p: "list_ex (\<lambda>d. oid d = js_toLowerCase ''65F000000000000000000001'') (docs store_A)"
    by (simp add: valid_ids store_A_def student_A_def)
  from delete_students_id_cases [of "''R1''" store_A]
    delete_students_id_cases [of id_B store_A]
    delete_students_id_cases [of "''65F000000000000000000001''" store_A]
  show ?thesis using r a p valid_ids(1,2,3)
    by (auto simp: store_A_def store_empty_def)
qed

section \<open>Two creates with one roll number\<close>

text \<open>
  Claim C4. Two creates, one after the other, with valid fields and the same rollNumber
  (the same once trimmed, as it is stored and looked up), on a reachable store that holds
  no document with that roll number, the first with an id that is new to the store: the
  first answers 201, the second answers 400 with \<^verbatim>\<open>success: false\<close> and the message
  \<^verbatim>\<open>Student with this roll number already exists\<close>, and the store holds exactly one
  document more.
\<close>

theorem two_creates_same_rollNumber:
  assumes "valid_fields ba" "valid_fields bb"
    and "applySetters rollNumber_path (ba ''rollNumber'') =
         applySetters rollNumber_path (bb ''rollNumber'')"
    and "reachable s"
    and "\<not> list_ex (\<lambda>d. Some (rollNumber d) =
               applySetters rollNumber_path (ba ''rollNumber'')) (docs s)"
    and "\<not> list_ex (\<lambda>d. oid d = ia) (docs s)"
  shows "case post_students ia ta ba s of (r1, s1) \<Rightarrow>
           case post_students ib tb bb s1 of (r2, s2) \<Rightarrow>
             status r1 = 201 \<and>
             r2 = \<lparr>status = 400, success = False,
                    message = Some ''Student with this roll number already exists'',
                    count = None, data = None, error = None\<rparr> \<and>
             length (docs s2) = length (docs s) + 1"
proof -
  from post_students_valid [OF assms(1,4,5,6), of ta] obtain d where
    d: "stored_form ia ta ba = Some d"
    and p1: "post_students ia ta ba s =
             (\<lparr>status = 201, success = True,
               message = Some ''Student registered successfully!'',
               count = None, data = Some (One d), error = None\<rparr>,
              s\<lparr>docs := docs s @ [d]\<rparr>)"
    by blast
  let ?s1 = "s\<lparr>docs := docs s @ [d]\<rparr>"
  have "Some (rollNumber d) = applySetters rollNumber_path (bb ''rollNumber'')"
    using stored_form_rollNumber [OF d] assms(3) by simp
  then have ex: "list_ex (\<lambda>d. Some (rollNumber d) =
                   applySetters rollNumber_path (bb ''rollNumber'')) (docs ?s1)"
    by (simp add: list_ex_iff)
  have re: "reachable ?s1" using assms(4) by simp
  have p2: "post_students ib tb bb ?s1 =
      (failure 400 ''Student with this roll number already exists'', ?s1)"
    by (rule post_students_duplicate [OF assms(2) re ex])
  show ?thesis by (simp add: p1 p2 failure_def)
qed

theorem two_creates_same_rollNumber_witness:
  "valid_fields body_A \<and> valid_fields body_padded_rollNumber \<and>
   applySetters rollNumber_path (body_A ''rollNumber'') =
     applySetters rollNumber_path (body_padded_rollNumber ''rollNumber'') \<and>
   reachable store_empty \<and>
   \<not> list_ex (\<lambda>d. Some (rollNumber d) =
        applySetters rollNumber_path (body_A ''rollNumber'')) (docs store_empty) \<and>
   \<not> list_ex (\<lambda>d. oid d = id_A) (docs store_empty) \<and>
   (case post_students id_A 1000 body_A store_empty of (r1, s1) \<Rightarrow>
      case post_students id_B 2000 body_padded_rollNumber s1 of (r2, s2) \<Rightarrow>
        status r1 = 201 \<and>
        r2 = \<lparr>status = 400, success = False,
                    message = Some ''Student with this roll number already exists'',
                    count = None, data = None, error = None\<rparr> \<and>
        length (docs s2) = length (docs store_empty) + 1)"
proof -
  have h1: "valid_fields body_A" by (rule valid_body_A)
  have h2: "valid_fields body_padded_rollNumber"
    by (simp add: valid_fields_def nonblank_text_def nonempty_text_def body_padded_rollNumber_def
        js_trim_def isWhiteSpace_def)
  have h3: "applySetters rollNumber_path (body_A ''rollNumber'') =
     applySetters rollNumber_path (body_padded_rollNumber ''rollNumber'')"
    by (simp add: body_A_def body_padded_rollNumber_def js_trim_def isWhiteSpace_def)
  have h4: "reachable store_empty" by (simp add: store_empty_def)
  have h5: "\<not> list_ex (\<lambda>d. Some (rollNumber d) =
        applySetters rollNumber_path (body_A ''rollNumber'')) (docs store_empty)"
    by (simp add: store_empty_def)
  have h6: "\<not> list_ex (\<lambda>d. oid d = id_A) (docs store_empty)"
    by (simp add: store_empty_def)
  from two_creates_same_rollNumber
    [OF h1 h2 h3 h4 h5 h6, where ta = 1000 and ib = id_B and tb = 2000] h1 h2 h3 h4 h5 h6
  show ?thesis by simp
qed

section \<open>Create, then list\<close>

lemma stored_form_email:
  "stored_form i now b = Some d \<Longrightarrow> b ''email'' = Some (JStr e) \<Longrightarrow>
   email d = js_toLowerCase (js_trim e)"
  by (auto simp: stored_form_def split: option.splits jsval.splits)

text \<open>
  Claim C5, as the code has it. A create with valid fields and a roll number that is new
  to a reachable store, with an id that is new to the store, answers 201; the list that
  follows holds exactly one document with that roll number, the stored form of the input,
  and its email is the lower case of the trimmed input email.
\<close>

theorem create_then_list:
  assumes "valid_fields b" and "reachable s"
    and "\<not> list_ex (\<lambda>d. Some (rollNumber d) =
               applySetters rollNumber_path (b ''rollNumber'')) (docs s)"
    and "\<not> list_ex (\<lambda>d. oid d = i) (docs s)"
  shows "case post_students i now b s of (r, s') \<Rightarrow>
           status r = 201 \<and>
           (\<exists>d xs. stored_form i now b = Some d \<and> data r = Some (One d) \<and>
              data (get_students s') = Some (Many xs) \<and>
              filter (\<lambda>x. rollNumber x = rollNumber d) xs = [d] \<and>
              (\<forall>e. b ''email'' = Some (JStr e) \<longrightarrow>
                 email d = js_toLowerCase (js_trim e)))"
proof -
  from post_students_valid [OF assms, of now] obtain d where
    d: "stored_form i now b = Some d"
    and p: "post_students i now b s =
             (\<lparr>status = 201, success = True,
               message = Some ''Student registered successfully!'',
               count = None, data = Some (One d), error = None\<rparr>,
              s\<lparr>docs := docs s @ [d]\<rparr>)"
    by blast
  let ?s' = "s\<lparr>docs := docs s @ [d]\<rparr>"
  let ?xs = "sort_key (\<lambda>d. - createdAt d) (docs ?s')"
  have g: "data (get_students ?s') = Some (Many ?xs)"
    using assms(2) by (simp add: get_students_reachable)
  have "\<not> list_ex (\<lambda>x. rollNumber x = rollNumber d) (docs s)"
    using assms(3) stored_form_rollNumber [OF d] by (auto simp: list_ex_iff)
  then have "filter (\<lambda>x. rollNumber x = rollNumber d) (docs s) = []"
    by (simp add: list_ex_iff filter_empty_conv)
  then have f: "filter (\<lambda>x. rollNumber x = rollNumber d) ?xs = [d]"
    by (simp add: filter_sort)
  have e: "\<forall>e. b ''email'' = Some (JStr e) \<longrightarrow> email d = js_toLowerCase (js_trim e)"
    using stored_form_email [OF d] by blast
  show ?thesis using d g f e by (simp add: p)
qed

theorem create_then_list_witness:
  "valid_fields body_B \<and> reachable store_A \<and>
   \<not> list_ex (\<lambda>d. Some (rollNumber d) =
        applySetters rollNumber_path (body_B ''rollNumber'')) (docs store_A) \<and>
   \<not> list_ex (\<lambda>d. oid d = id_B) (docs store_A) \<and>
   (case post_students id_B 2000 body_B store_A of (r, s') \<Rightarrow>
      status r = 201 \<and>
      (\<exists>d xs. stored_form id_B 2000 body_B = Some d \<and> data r = Some (One d) \<and>
         data (get_students s') = Some (Many xs) \<and>
         filter (\<lambda>x. rollNumber x = rollNumber d) xs = [d] \<and>
         (\<forall>e. body_B ''email'' = Some (JStr e) \<longrightarrow>
            email d = js_toLowerCase (js_trim e))))"
proof -
  have h1: "valid_fields body_B"
    by (simp add: valid_fields_def nonblank_text_def nonempty_text_def body_B_def
        js_trim_def isWhiteSpace_def)
  have h2: "reachable store_A" by (simp add: store_A_def)
  have h3: "\<not> list_ex (\<lambda>d. Some (rollNumber d) =
        applySetters rollNumber_path (body_B ''rollNumber'')) (docs store_A)"
    by (simp add: example_defs js_trim_def isWhiteSpace_def)
  have h4: "\<not> list_ex (\<lambda>d. oid d = id_B) (docs store_A)"
    by (simp add: example_defs)
  from create_then_list [OF h1 h2 h3 h4, of 2000] h1 h2 h3 h4
  show ?thesis by simp
qed

text \<open>
  The claim as it is written fails on an email with a space before and after it: the
  fields are valid, the create answers 201 and the list holds the one document, but its
  email is the lower case of the trimmed input, not of the input.
\<close>

theorem create_then_list_counterexample:
  "valid_fields body_padded_email \<and>
   body_padded_email ''email'' = Some (JStr '' A@x.com '') \<and>
   post_students id_A 1000 body_padded_email store_empty =
     (\<lparr>status = 201, success = True, message = Some ''Student registered successfully!'',
       count = None, data = Some (One student_A), error = None\<rparr>, store_A) \<and>
   data (get_students store_A) = Some (Many [student_A]) \<and>
   email student_A = ''a@x.com'' \<and>
   js_toLowerCase '' A@x.com '' = '' a@x.com '' \<and>
   email student_A \<noteq> js_toLowerCase '' A@x.com ''"
  by (simp add: example_defs model_defs valid_fields_def nonblank_text_def
      nonempty_text_def get_students_def find_sort_createdAt_desc_def char_of_eq_iff)

section \<open>The order of the list\<close>

lemma count_list_insort_key:
  "count_list (insort_key f a xs) x = count_list (a # xs) x"
  by (induction xs) auto

lemma count_list_sort_key: "count_list (sort_key f xs) x = count_list xs x"
  by (induction xs) (auto simp: count_list_insort_key)

lemma list_sorted:
  assumes "reachable s"
  shows "\<exists>xs. data (get_students s) = Some (Many xs) \<and>
           sorted_wrt (\<lambda>a b. createdAt b \<le> createdAt a) xs \<and>
           (\<forall>d. count_list xs d = count_list (docs s) d)"
proof -
  let ?xs = "sort_key (\<lambda>d. - createdAt d) (docs s)"
  have "sorted (map (\<lambda>d. - createdAt d) ?xs)" by (rule sorted_sort_key)
  then have "sorted_wrt (\<lambda>a b. createdAt b \<le> createdAt a) ?xs"
    by (simp add: sorted_map)
  then show ?thesis
    using assms by (simp add: get_students_reachable count_list_sort_key)
qed

lemma post_students_created:
  assumes "post_students i t b s = (r, s')" "data r = Some (One d)"
  shows "docs s' = docs s @ [d] \<and> createdAt d = t \<and> reachable s' = reachable s"
  using assms
  by (auto simp: post_students_def post_students_interleaved_def save_def insertOne_def
      Let_def failure_def server_error_def
      split: sum.splits option.splits if_splits)

lemma list_three:
  assumes "post_students iA tA bA store_empty = (rA, sA)" "data rA = Some (One A)"
    "post_students iB tB bB sA = (rB, sB)" "data rB = Some (One B)"
    "post_students iC tC bC sB = (rC, sC)" "data rC = Some (One C)"
    "tA < tB" "tB < tC"
  shows "data (get_students sC) = Some (Many [C, B, A])"
proof -
  from post_students_created [OF assms(1,2)]
  have a: "docs sA = [A]" "createdAt A = tA" "reachable sA"
    by (simp_all add: store_empty_def)
  from post_students_created [OF assms(3,4)] a
  have b: "docs sB = [A, B]" "createdAt B = tB" "reachable sB" by simp_all
  from post_students_created [OF assms(5,6)] b
  have c: "docs sC = [A, B, C]" "createdAt C = tC" "reachable sC" by simp_all
  have "sort_key (\<lambda>d. - createdAt d) [A, B, C] = [C, B, A]"
    using a(2) b(2) c(2) assms(7,8) by simp
  then show ?thesis using c by (simp add: get_students_reachable)
qed

text \<open>
  Claim C6. On a reachable store, \<^verbatim>\<open>GET /students\<close> returns the stored documents, each
  as often as it is stored, in descending order of \<^verbatim>\<open>createdAt\<close>. When three creates on
  the empty store succeed one after the other with the documents A, B and C, at times that
  increase, the list is [C, B, A].
\<close>

theorem list_newest_first:
  "(reachable s \<longrightarrow>
      (\<exists>xs. data (get_students s) = Some (Many xs) \<and>
         sorted_wrt (\<lambda>a b. createdAt b \<le> createdAt a) xs \<and>
         (\<forall>d. count_list xs d = count_list (docs s) d))) \<and>
   (post_students iA tA bA store_empty = (rA, sA) \<and> data rA = Some (One A) \<and>
    post_students iB tB bB sA = (rB, sB) \<and> data rB = Some (One B) \<and>
    post_students iC tC bC sB = (rC, sC) \<and> data rC = Some (One C) \<and>
    tA < tB \<and> tB < tC \<longrightarrow>
      data (get_students sC) = Some (Many [C, B, A]))"
  using list_sorted list_three by blast

theorem list_newest_first_witness:
  "reachable store_ABC \<and>
   (\<exists>xs. data (get_students store_ABC) = Some (Many xs) \<and>
      sorted_wrt (\<lambda>a b. createdAt b \<le> createdAt a) xs \<and>
      (\<forall>d. count_list xs d = count_list (docs store_ABC) d)) \<and>
   post_students id_A 1000 body_A store_empty =
     (\<lparr>status = 201, success = True, message = Some ''Student registered successfully!'',
       count = None, data = Some (One student_A), error = None\<rparr>, store_A) \<and>
   post_students id_B 2000 body_B store_A =
     (\<lparr>status = 201, success = True, message = Some ''Student registered successfully!'',
       count = None, data = Some (One student_B), error = None\<rparr>, store_AB) \<and>
   post_students id_C 3000 body_C store_AB =
     (\<lparr>status = 201, success = True, message = Some ''Student registered successfully!'',
       count = None, data = Some (One student_C), error = None\<rparr>, store_ABC) \<and>
   (1000 :: int) < 2000 \<and> (2000 :: int) < 3000 \<and>
   data (get_students store_ABC) = Some (Many [student_C, student_B, student_A])"
proof -
  have r: "reachable store_ABC" by (simp add: store_ABC_def)
  have lt: "(1000 :: int) < 2000" "(2000 :: int) < 3000" by simp_all
  note p = post_students_body_A post_students_body_B post_students_body_C
  note t = list_newest_first
    [where s = store_ABC and iA = id_A and tA = 1000 and bA = body_A and sA = store_A
       and iB = id_B and tB = 2000 and bB = body_B and sB = store_AB
       and iC = id_C and tC = 3000 and bC = body_C and sC = store_ABC
       and A = student_A and B = student_B and C = student_C
       and rA = "fst (post_students id_A 1000 body_A store_empty)"
       and rB = "fst (post_students id_B 2000 body_B store_A)"
       and rC = "fst (post_students id_C 3000 body_C store_AB)"]
  from t r have c1: "\<exists>xs. data (get_students store_ABC) = Some (Many xs) \<and>
      sorted_wrt (\<lambda>a b. createdAt b \<le> createdAt a) xs \<and>
      (\<forall>d. count_list xs d = count_list (docs store_ABC) d)"
    by blast
  from t have c2: "data (get_students store_ABC) =
      Some (Many [student_C, student_B, student_A])"
    by (simp add: p)
  from r c1 p lt c2 show ?thesis by blast
qed

section \<open>The port and the connection string\<close>

text \<open>
  Claim C7, as the code has it. The port is supplied from outside: the server listens on
  the variable \<^verbatim>\<open>PORT\<close> of the process environment when it is set and not empty, and on
  3000 otherwise. The connection string is the constant of the source, whatever the
  environment holds.
\<close>

theorem startup_configuration:
  "connect_arg (start mongoURI env) = mongoURI \<and>
   (env ''PORT'' = Some v \<and> v \<noteq> [] \<longrightarrow> listen_arg (start mongoURI env) = PortString v) \<and>
   (env ''PORT'' = None \<or> env ''PORT'' = Some [] \<longrightarrow>
      listen_arg (start mongoURI env) = PortNumber 3000)"
  by (auto simp: start_def PORT_def)

theorem startup_configuration_witness:
  "env_port ''PORT'' = Some ''8080'' \<and> ''8080'' \<noteq> [] \<and>
   listen_arg (start ''mongodb+srv://cluster0.example/fest_db'' env_port) = PortString ''8080'' \<and>
   env_no_port ''PORT'' = None \<and>
   listen_arg (start ''mongodb+srv://cluster0.example/fest_db'' env_no_port) = PortNumber 3000 \<and>
   connect_arg (start ''mongodb+srv://cluster0.example/fest_db'' env_port) =
     ''mongodb+srv://cluster0.example/fest_db''"
proof -
  have h1: "env_port ''PORT'' = Some ''8080''" by (simp add: env_port_def)
  have h2: "env_no_port ''PORT'' = None" by (simp add: env_no_port_def)
  from startup_configuration
      [of "''mongodb+srv://cluster0.example/fest_db''" env_port "''8080''"]
    startup_configuration
      [of "''mongodb+srv://cluster0.example/fest_db''" env_no_port "''8080''"] h1 h2
  show ?thesis by simp
qed

text \<open>
  The claim as it is written fails for the connection string: no variable of the
  environment supplies it. Whatever variable is chosen, the environment \<open>env_port\<close> with
  that variable set to another string is one where the server does not connect with the
  variable's value.
\<close>

theorem connection_string_counterexample:
  "\<not> (\<exists>var. \<forall>mongoURI env v.
         env var = Some v \<longrightarrow> connect_arg (start mongoURI env) = v)"
proof
  assume "\<exists>var. \<forall>mongoURI env v.
            env var = Some v \<longrightarrow> connect_arg (start mongoURI env) = v"
  then obtain var where
    h: "\<And>mongoURI env v. env var = Some v \<Longrightarrow> connect_arg (start mongoURI env) = v"
    by blast
  have "(env_port(var \<mapsto> ''mongodb://db.example/fest'')) var = Some ''mongodb://db.example/fest''"
    by simp
  from h [of "env_port(var \<mapsto> ''mongodb://db.example/fest'')"
      "''mongodb://db.example/fest''" "''mongodb+srv://cluster0.example/fest_db''", OF this]
  show False by (simp add: start_def)
qed

section \<open>Rendering a student\<close>

lemma escape_text_reference: "concat (map escape_unit s) = html_escape_reference s"
  by (induction s) (auto simp: escape_unit_def)

lemma escapeHtml_text: "escapeHtml s = concat (map escape_unit s)"
  by (simp add: escapeHtml_def set_textContent_def)

lemma escapeHtml_reference: "escapeHtml s = html_escape_reference s"
  by (simp only: escapeHtml_text escape_text_reference)

lemma escape_unit_no_markup:
  "CHR ''<'' \<notin> set (escape_unit c) \<and> CHR ''>'' \<notin> set (escape_unit c)"
  by (simp add: escape_unit_def)

text \<open>What \<^verbatim>\<open>escapeHtml\<close> returns holds no \<^verbatim>\<open><\<close> and no \<^verbatim>\<open>>\<close>.\<close>

lemma escapeHtml_no_markup:
  "CHR ''<'' \<notin> set (escapeHtml s) \<and> CHR ''>'' \<notin> set (escapeHtml s)"
  using escape_unit_no_markup by (auto simp: escapeHtml_text)

text \<open>Reading the escaped text back gives the stored value.\<close>

lemma html_unescape_reference: "html_unescape (html_escape_reference s) = s"
  by (induction s) auto

lemma html_unescape_escapeHtml: "html_unescape (escapeHtml s) = s"
  by (simp only: escapeHtml_reference html_unescape_reference)

text \<open>
  Claim C8. The markup of a student is the template of lines 176 to 204 with each of
  name, rollNumber, email, phone and event inserted as what \<^verbatim>\<open>escapeHtml\<close> returns for
  the stored value, and that is the reference escape of the value. The markup is written
  out: line feeds as \<open>CHR 0x0A\<close>, the apostrophe as \<open>CHR 0x27\<close>, the pictograph of the
  label as its seven bytes.
\<close>

theorem createStudentHTML_escapes_fields:
  \<open>createStudentHTML st =
     concat [
       [CHR 0x0A],
       ''        <div class="student-item" data-student-id="'', oid st, ''">'', [CHR 0x0A],
       ''            <div class="student-header">'', [CHR 0x0A],
       ''                <div class="student-name">'', html_escape_reference (name st),
         ''</div>'', [CHR 0x0A],
       ''                <button class="btn btn-danger" onclick="deleteStudent('', [CHR 0x27],
         oid st, [CHR 0x27], '')">'', [CHR 0x0A],
       ''                    '',
         [CHR 0xF0, CHR 0x9F, CHR 0x97, CHR 0x91, CHR 0xEF, CHR 0xB8, CHR 0x8F], '' Remove'',
         [CHR 0x0A],
       ''                </button>'', [CHR 0x0A],
       ''            </div>'', [CHR 0x0A],
       ''            '', [CHR 0x0A],
       ''            <div class="student-info">'', [CHR 0x0A],
       ''                <div class="info-item">'', [CHR 0x0A],
       ''                    <span class="info-label">Roll Number:</span>'', [CHR 0x0A],
       ''                    <span class="info-value">'', html_escape_reference (rollNumber st),
         ''</span>'', [CHR 0x0A],
       ''                </div>'', [CHR 0x0A],
       ''                <div class="info-item">'', [CHR 0x0A],
       ''                    <span class="info-label">Email:</span>'', [CHR 0x0A],
       ''                    <span class="info-value">'', html_escape_reference (email st),
         ''</span>'', [CHR 0x0A],
       ''                </div>'', [CHR 0x0A],
       ''                <div class="info-item">'', [CHR 0x0A],
       ''                    <span class="info-label">Phone:</span>'', [CHR 0x0A],
       ''                    <span class="info-value">'', html_escape_reference (phone st),
         ''</span>'', [CHR 0x0A],
       ''                </div>'', [CHR 0x0A],
       ''                <div class="info-item">'', [CHR 0x0A],
       ''                    <span class="info-label">Event:</span>'', [CHR 0x0A],
       ''                    <span class="event-badge">'', html_escape_reference (event st),
         ''</span>'', [CHR 0x0A],
       ''                </div>'', [CHR 0x0A],
       ''            </div>'', [CHR 0x0A],
       ''        </div>'', [CHR 0x0A],
       ''    ''] \<and>
   escapeHtml (name st) = html_escape_reference (name st) \<and>
   escapeHtml (rollNumber st) = html_escape_reference (rollNumber st) \<and>
   escapeHtml (email st) = html_escape_reference (email st) \<and>
   escapeHtml (phone st) = html_escape_reference (phone st) \<and>
   escapeHtml (event st) = html_escape_reference (event st)\<close>
  by (simp add: createStudentHTML_def student_item_def nl_def wastebasket_def
      escapeHtml_reference)

theorem createStudentHTML_escapes_fields_witness:
  \<open>name student_markup = ''<b>A & B</b>'' \<and>
   escapeHtml (name student_markup) = ''&lt;b&gt;A &amp; B&lt;/b&gt;'' \<and>
   createStudentHTML student_markup =
     concat [
       [CHR 0x0A],
       ''        <div class="student-item" data-student-id="'', ''65f000000000000000000001'',
         ''">'', [CHR 0x0A],
       ''            <div class="student-header">'', [CHR 0x0A],
       ''                <div class="student-name">'', ''&lt;b&gt;A &amp; B&lt;/b&gt;'',
         ''</div>'', [CHR 0x0A],
       ''                <button class="btn btn-danger" onclick="deleteStudent('', [CHR 0x27],
         ''65f000000000000000000001'', [CHR 0x27], '')">'', [CHR 0x0A],
       ''                    '',
         [CHR 0xF0, CHR 0x9F, CHR 0x97, CHR 0x91, CHR 0xEF, CHR 0xB8, CHR 0x8F], '' Remove'',
         [CHR 0x0A],
       ''                </button>'', [CHR 0x0A],
       ''            </div>'', [CHR 0x0A],
       ''            '', [CHR 0x0A],
       ''            <div class="student-info">'', [CHR 0x0A],
       ''                <div class="info-item">'', [CHR 0x0A],
       ''                    <span class="info-label">Roll Number:</span>'', [CHR 0x0A],
       ''                    <span class="info-value">'', ''R1'', ''</span>'', [CHR 0x0A],
       ''                </div>'', [CHR 0x0A],
       ''                <div class="info-item">'', [CHR 0x0A],
       ''                    <span class="info-label">Email:</span>'', [CHR 0x0A],
       ''                    <span class="info-value">'', ''a@x.com'', ''</span>'', [CHR 0x0A],
       ''                </div>'', [CHR 0x0A],
       ''                <div class="info-item">'', [CHR 0x0A],
       ''                    <span class="info-label">Phone:</span>'', [CHR 0x0A],
       ''                    <span class="info-value">'', ''1234567890'', ''</span>'', [CHR 0x0A],
       ''                </div>'', [CHR 0x0A],
       ''                <div class="info-item">'', [CHR 0x0A],
       ''                    <span class="info-label">Event:</span>'', [CHR 0x0A],
       ''                    <span class="event-badge">'', ''Dance'', ''</span>'', [CHR 0x0A],
       ''                </div>'', [CHR 0x0A],
       ''            </div>'', [CHR 0x0A],
       ''        </div>'', [CHR 0x0A],
       ''    '']\<close>
  using createStudentHTML_escapes_fields [of student_markup]
  by (simp add: student_markup_def id_A_def)

section \<open>The count of a list response\<close>

text \<open>
  Claim C9. In every response of \<^verbatim>\<open>GET /students\<close> with status 200, \<^verbatim>\<open>data\<close> is an array
  and \<^verbatim>\<open>count\<close> is its length.
\<close>

theorem get_students_count:
  "status (get_students s) = 200 \<Longrightarrow>
   \<exists>xs. data (get_students s) = Some (Many xs) \<and>
        count (get_students s) = Some (length xs)"
  by (auto simp: get_students_def server_error_def split: sum.splits)

theorem get_students_count_witness:
  "status (get_students store_A) = 200 \<and>
   (\<exists>xs. data (get_students store_A) = Some (Many xs) \<and>
      count (get_students store_A) = Some (length xs)) \<and>
   count (get_students store_A) = Some 1"
proof -
  have h: "status (get_students store_A) = 200"
    by (simp add: get_students_def find_sort_createdAt_desc_def store_A_def)
  have c: "count (get_students store_A) = Some 1"
    by (simp add: get_students_def find_sort_createdAt_desc_def store_A_def)
  from get_students_count [OF h] h c show ?thesis by simp
qed

section \<open>The fields a create reads\<close>

lemma post_students_env:
  assumes "\<not> list_ex (\<lambda>d. oid d = i) (docs s)" "\<not> list_ex (\<lambda>d. oid d = i') (docs s)"
  shows "case post_students i t b s of (r1, s1) \<Rightarrow>
           case post_students i' t' b s of (r2, s2) \<Rightarrow>
             status r1 = status r2 \<and> message r1 = message r2 \<and>
             map fields_of (docs s1) = map fields_of (docs s2)"
  using assms
  by (auto simp: post_students_def post_students_interleaved_def save_def insertOne_def
      new_Student_def validate_def Let_def failure_def server_error_def fields_of_def
      split: sum.splits option.splits)

lemma post_students_five_fields:
  assumes "ba ''name'' = bb ''name''" "ba ''rollNumber'' = bb ''rollNumber''"
    "ba ''email'' = bb ''email''" "ba ''phone'' = bb ''phone''"
    "ba ''event'' = bb ''event''"
  shows "post_students i t ba s = post_students i t bb s"
  using assms by (simp add: post_students_def post_students_interleaved_def)

text \<open>
  Claim C10. Two request bodies that agree on name, rollNumber, email, phone and event
  get, on the same store, with the same generated id and clock, the same response and the
  same store. With ids that are each new to the store and any clocks, they get the same
  status and message, and stores that hold the same documents apart from id and
  timestamps.
\<close>

theorem create_reads_five_fields:
  assumes "ba ''name'' = bb ''name''" "ba ''rollNumber'' = bb ''rollNumber''"
    "ba ''email'' = bb ''email''" "ba ''phone'' = bb ''phone''"
    "ba ''event'' = bb ''event''"
  shows "post_students i t ba s = post_students i t bb s \<and>
    (\<not> list_ex (\<lambda>d. oid d = ia) (docs s) \<and> \<not> list_ex (\<lambda>d. oid d = ib) (docs s) \<longrightarrow>
       (case post_students ia ta ba s of (r1, s1) \<Rightarrow>
          case post_students ib tb bb s of (r2, s2) \<Rightarrow>
            status r1 = status r2 \<and> message r1 = message r2 \<and>
            map fields_of (docs s1) = map fields_of (docs s2)))"
proof -
  have eq: "post_students j u ba s = post_students j u bb s" for j u
    by (rule post_students_five_fields [OF assms])
  show ?thesis
    using post_students_env [where i = ia and i' = ib and t = ta and t' = tb and b = bb
        and s = s]
    by (simp add: eq)
qed

theorem create_reads_five_fields_witness:
  "body_A ''name'' = body_A_extra ''name'' \<and>
   body_A ''rollNumber'' = body_A_extra ''rollNumber'' \<and>
   body_A ''email'' = body_A_extra ''email'' \<and>
   body_A ''phone'' = body_A_extra ''phone'' \<and>
   body_A ''event'' = body_A_extra ''event'' \<and>
   body_A ''isAdmin'' \<noteq> body_A_extra ''isAdmin'' \<and>
   post_students id_A 1000 body_A store_empty =
     post_students id_A 1000 body_A_extra store_empty \<and>
   \<not> list_ex (\<lambda>d. oid d = id_A) (docs store_empty) \<and>
   \<not> list_ex (\<lambda>d. oid d = id_B) (docs store_empty) \<and>
   (case post_students id_A 1000 body_A store_empty of (r1, s1) \<Rightarrow>
      case post_students id_B 2000 body_A_extra store_empty of (r2, s2) \<Rightarrow>
        status r1 = status r2 \<and> message r1 = message r2 \<and>
        map fields_of (docs s1) = map fields_of (docs s2))"
proof -
  have h: "body_A ''name'' = body_A_extra ''name''"
    "body_A ''rollNumber'' = body_A_extra ''rollNumber''"
    "body_A ''email'' = body_A_extra ''email''"
    "body_A ''phone'' = body_A_extra ''phone''"
    "body_A ''event'' = body_A_extra ''event''"
    by (simp_all add: body_A_def body_A_extra_def)
  have x: "body_A ''isAdmin'' \<noteq> body_A_extra ''isAdmin''"
    by (simp add: body_A_def body_A_extra_def)
  have f: "\<not> list_ex (\<lambda>d. oid d = id_A) (docs store_empty)"
    "\<not> list_ex (\<lambda>d. oid d = id_B) (docs store_empty)"
    by (simp_all add: store_empty_def)
  note c = create_reads_five_fields
    [OF h, where i = id_A and t = 1000 and s = store_empty and ia = id_A and ta = 1000
       and ib = id_B and tb = 2000]
  from c have c1: "post_students id_A 1000 body_A store_empty =
      post_students id_A 1000 body_A_extra store_empty"
    by (rule conjunct1)
  from conjunct2 [OF c] f have c2:
    "case post_students id_A 1000 body_A store_empty of (r1, s1) \<Rightarrow>
       case post_students id_B 2000 body_A_extra store_empty of (r2, s2) \<Rightarrow>
         status r1 = status r2 \<and> message r1 = message r2 \<and>
         map fields_of (docs s1) = map fields_of (docs s2)"
    by (simp only: simp_thms)
  show ?thesis
    by (intro conjI) (rule h x c1 f c2)+
qed

end
